theory Spec2Isabelle
  imports Main
begin

section \<open>week-1/main.py\<close>

text \<open>
  The module is
  \<^verbatim>\<open>
  from fastapi import FastAPI

  app = FastAPI(title="My FastAPI APP")

  @app.get("/")
  def home():
      return {"message": "Hello world"}
  \<close>
  followed by three comment lines (a second endpoint, disabled). A comment is no
  statement: nothing of it is executed, so nothing of it appears below.
\<close>

subsection \<open>Values, errors and the interpreter state\<close>

text \<open>
  The Python values the module builds: \<open>str\<close>, and \<open>dict\<close> with \<open>str\<close> keys. A dict
  keeps its keys in insertion order, so it is an association list. The strings of the
  module are ASCII.
\<close>

datatype pyval = PyStr string | PyDict "(string \<times> pyval) list"

text \<open>An exception that leaves a function.\<close>

datatype error = Raised string

text \<open>The functions the module defines with \<open>def\<close>.\<close>

datatype handler = Home

text \<open>
  The functions the framework's constructor defines for itself, in its \<open>setup()\<close>:
  the OpenAPI schema, the Swagger UI page, the page of its OAuth2 redirect, and the
  ReDoc page.
\<close>

datatype builtin = Openapi | Swagger_ui_html | Swagger_ui_redirect | Redoc_html

text \<open>What a route is bound to: a function of the module, or one of the framework's own.\<close>

datatype callee = Module_Def handler | Framework_Def builtin

text \<open>
  What one registration stores: the HTTP methods it answers, its path, and the function
  it is bound to.
\<close>

record route =
  methods :: "string list"
  path :: string
  endpoint :: callee

text \<open>
  The application object as far as the properties below reach it: the keyword argument of the
  constructor, and the route table, in the order the routes were registered. The
  table holds the routes the constructor registers as well as those registered
  through the object's decorators.
\<close>

record fastapi =
  title :: string
  routes :: "route list"

text \<open>
  What a call could read or change besides its arguments: the module-level name
  \<open>app\<close>, and the input and output performed so far (one entry per operation).
\<close>

record pystate =
  module_app :: fastapi
  io :: "string list"

text \<open>The incoming HTTP request, as the framework hands it to the application.\<close>

record request =
  req_method :: string
  req_path :: string
  req_headers :: "(string \<times> string) list"
  req_body :: string

subsection \<open>The statements of the module\<close>

text \<open>
  \<^verbatim>\<open>FastAPI(title=...)\<close>, every other argument at its default. The constructor is the
  framework's (\<open>fastapi/applications.py\<close>, no file of the repository); this is what it
  does to the two fields above. It stores the title, and it ends with a call of
  \<open>setup()\<close>, which with the defaults \<^verbatim>\<open>openapi_url="/openapi.json"\<close>,
  \<^verbatim>\<open>docs_url="/docs"\<close>, \<^verbatim>\<open>swagger_ui_oauth2_redirect_url="/docs/oauth2-redirect"\<close> and
  \<^verbatim>\<open>redoc_url="/redoc"\<close> registers four routes with \<open>add_route\<close>, in this order. A route
  added so, with no methods given, answers GET, and HEAD with it.
\<close>

definition FastAPI :: "string \<Rightarrow> fastapi" where
  "FastAPI t =
     \<lparr>title = t,
      routes =
        [\<lparr>methods = [''GET'', ''HEAD''], path = ''/openapi.json'', endpoint = Framework_Def Openapi\<rparr>,
         \<lparr>methods = [''GET'', ''HEAD''], path = ''/docs'', endpoint = Framework_Def Swagger_ui_html\<rparr>,
         \<lparr>methods = [''GET'', ''HEAD''], path = ''/docs/oauth2-redirect'',
            endpoint = Framework_Def Swagger_ui_redirect\<rparr>,
         \<lparr>methods = [''GET'', ''HEAD''], path = ''/redoc'', endpoint = Framework_Def Redoc_html\<rparr>]\<rparr>"

text \<open>
  \<^verbatim>\<open>@app.get(p)\<close> over \<^verbatim>\<open>def f\<close>, that is \<^verbatim>\<open>app.get(p)(f)\<close>: registers \<open>f\<close> at path
  \<open>p\<close> for the method GET alone, after the routes already in the table.
\<close>

definition app_get :: "string \<Rightarrow> handler \<Rightarrow> fastapi \<Rightarrow> fastapi" where
  "app_get p f a =
     a\<lparr>routes := routes a @ [\<lparr>methods = [''GET''], path = p, endpoint = Module_Def f\<rparr>]\<rparr>"

text \<open>
  \<^verbatim>\<open>def home(): return {"message": "Hello world"}\<close>. The function has no parameter;
  its body is one \<open>return\<close> of a dict display with constant key and value. It takes
  the state and gives it back with the result, as every call does.
\<close>

definition home :: "pystate \<Rightarrow> (error + pyval) \<times> pystate" where
  "home s = (Inr (PyDict [(''message'', PyStr ''Hello world'')]), s)"

text \<open>
  The module-level object \<open>app\<close> once the module has run: line 6 constructs it, line 9
  registers \<open>home\<close> on it.
\<close>

definition app :: fastapi where
  "app = app_get ''/'' Home (FastAPI ''My FastAPI APP'')"

text \<open>The interpreter state the import leaves: \<open>app\<close> bound, nothing read or written.\<close>

definition imported :: pystate where
  "imported = \<lparr>module_app = app, io = []\<rparr>"

text \<open>
  Calling the function a route is bound to, for a request. \<open>home\<close> declares no
  parameter, so the call passes it nothing of the request.
\<close>

fun invoke :: "handler \<Rightarrow> request \<Rightarrow> pystate \<Rightarrow> (error + pyval) \<times> pystate" where
  "invoke Home rq s = home s"

subsection \<open>The framework's side of a request\<close>

text \<open>
  Modelled from the spec: the response the framework sends. The framework is imported
  by the module and is no file of the repository. The spec gives a successful response
  a status, the content type \<open>application/json\<close> and a JSON body, here the JSON value
  itself (how the value is written out as bytes is the framework's serializer, which
  the spec does not describe); of the framework's default error responses it gives the
  status only. Of the pages of the framework's own endpoints the spec says nothing:
  such a response is named by its endpoint, with the status the framework gives it.
\<close>

datatype response =
    Response (status: nat) (content_type: string) (body: pyval)
  | Default_Error (status: nat)
  | Framework_Page (status: nat) (page: builtin)

text \<open>
  Modelled from the spec: the framework's router, which is no file of the repository.
  By the spec a route is a (method, path) pair mapped to a handler; a request whose
  method and path are those of a registered route is dispatched to that route's
  handler, and the value returned is sent as a JSON body with status 200; a request
  for a registered path with a method not registered for it is answered 405; a request
  for a path that is not registered is answered 404. The spec leaves an exception of a
  handler to the framework's own error handling, so here it leaves the dispatch as it
  is. Paths are compared as strings: the application registers no path with a
  parameter. The routes are tried in the order of the table, as the framework's router
  tries them (\<open>starlette/routing.py\<close>): the first route whose path and method both
  match answers; failing that, a route whose path matches gives 405. A request that
  matches one of the constructor's own routes is answered by the framework's page for
  it, with status 200.
\<close>

definition dispatch :: "fastapi \<Rightarrow> request \<Rightarrow> pystate \<Rightarrow> (error + response) \<times> pystate" where
  "dispatch a rq s =
     (case find (\<lambda>r. path r = req_path rq \<and> req_method rq \<in> set (methods r)) (routes a) of
        Some r \<Rightarrow>
          (case endpoint r of
             Module_Def h \<Rightarrow>
               (case invoke h rq s of
                  (Inr v, s') \<Rightarrow> (Inr (Response 200 ''application/json'' v), s')
                | (Inl e, s') \<Rightarrow> (Inl e, s'))
           | Framework_Def b \<Rightarrow> (Inr (Framework_Page 200 b), s))
      | None \<Rightarrow>
          (case find (\<lambda>r. path r = req_path rq) (routes a) of
             Some r \<Rightarrow> (Inr (Default_Error 405), s)
           | None \<Rightarrow> (Inr (Default_Error 404), s)))"

section \<open>The handler\<close>

text \<open>
  C2: the handler \<open>home\<close> is total. In every state it returns normally, the value
  returned is the fixed mapping \<open>{"message": "Hello world"}\<close>, and no exception
  leaves it.
\<close>

theorem home_total:
  "fst (home s) = Inr (PyDict [(''message'', PyStr ''Hello world'')]) \<and> (\<forall>e. fst (home s) \<noteq> Inl e)"
  by (simp add: home_def)

text \<open>The route table of \<open>app\<close>, written out, and what it gives a GET request for \<open>/\<close>.\<close>

lemma routes_app:
  "routes app =
     [\<lparr>methods = [''GET'', ''HEAD''], path = ''/openapi.json'', endpoint = Framework_Def Openapi\<rparr>,
      \<lparr>methods = [''GET'', ''HEAD''], path = ''/docs'', endpoint = Framework_Def Swagger_ui_html\<rparr>,
      \<lparr>methods = [''GET'', ''HEAD''], path = ''/docs/oauth2-redirect'',
         endpoint = Framework_Def Swagger_ui_redirect\<rparr>,
      \<lparr>methods = [''GET'', ''HEAD''], path = ''/redoc'', endpoint = Framework_Def Redoc_html\<rparr>,
      \<lparr>methods = [''GET''], path = ''/'', endpoint = Module_Def Home\<rparr>]"
  by (simp add: app_def app_get_def FastAPI_def)

lemma dispatch_get_root:
  assumes "req_method rq = ''GET''" and "req_path rq = ''/''"
  shows "dispatch app rq s =
           (Inr (Response 200 ''application/json'' (PyDict [(''message'', PyStr ''Hello world'')])), s)"
  using assms by (simp add: dispatch_def routes_app home_def)

text \<open>
  C3: any two invocations of \<open>home\<close> give the same result, the mapping
  \<open>{"message": "Hello world"}\<close>, whatever the two requests are and whatever the state
  is at either call: the result depends on no part of the request and on no hidden
  state. So any two GET requests for \<open>/\<close>, with whatever headers and bodies and in
  whatever states, get the same response: status 200 and exactly that body.
\<close>

theorem home_deterministic:
  "fst (home s1) = fst (home s2) \<and>
   fst (invoke Home rq1 s1) = fst (invoke Home rq2 s2) \<and>
   fst (invoke Home rq1 s1) = Inr (PyDict [(''message'', PyStr ''Hello world'')]) \<and>
   (req_method rq1 = ''GET'' \<and> req_path rq1 = ''/'' \<and> req_method rq2 = ''GET'' \<and> req_path rq2 = ''/'' \<longrightarrow>
      fst (dispatch app rq1 s1) = fst (dispatch app rq2 s2) \<and>
      fst (dispatch app rq1 s1) =
        Inr (Response 200 ''application/json'' (PyDict [(''message'', PyStr ''Hello world'')])) \<and>
      status (Response 200 ''application/json'' (PyDict [(''message'', PyStr ''Hello world'')])) = 200 \<and>
      body (Response 200 ''application/json'' (PyDict [(''message'', PyStr ''Hello world'')])) =
        PyDict [(''message'', PyStr ''Hello world'')])"
  by (simp add: home_def dispatch_get_root)

theorem home_deterministic_witness:
  "fst (dispatch app
          \<lparr>req_method = ''GET'', req_path = ''/'', req_headers = [], req_body = ''''\<rparr> imported) =
   fst (dispatch app
          \<lparr>req_method = ''GET'', req_path = ''/'', req_headers = [(''accept'', ''text/html'')],
             req_body = ''x''\<rparr>
          (imported\<lparr>io := [''earlier output'']\<rparr>)) \<and>
   fst (dispatch app
          \<lparr>req_method = ''GET'', req_path = ''/'', req_headers = [], req_body = ''''\<rparr> imported) =
     Inr (Response 200 ''application/json'' (PyDict [(''message'', PyStr ''Hello world'')]))"
  using home_deterministic
    [of imported "imported\<lparr>io := [''earlier output'']\<rparr>"
        "\<lparr>req_method = ''GET'', req_path = ''/'', req_headers = [], req_body = ''''\<rparr>"
        "\<lparr>req_method = ''GET'', req_path = ''/'', req_headers = [(''accept'', ''text/html'')],
           req_body = ''x''\<rparr>"]
  by auto

text \<open>
  C8: an invocation of \<open>home\<close> leaves the whole state as it found it: the module-level
  object \<open>app\<close> is the same afterwards, no input or output has been performed, and the
  value returned does not depend on the state the call started in.
\<close>

theorem home_frame:
  "snd (home s) = s \<and>
   module_app (snd (home s)) = module_app s \<and>
   io (snd (home s)) = io s \<and>
   fst (home s) = fst (home s')"
  by (simp add: home_def)

section \<open>The application object\<close>

text \<open>
  C9: the application is constructed with the title \<open>My FastAPI APP\<close>, and that is the
  title of the object the import leaves bound to \<open>app\<close>.
\<close>

theorem app_title:
  "title app = ''My FastAPI APP'' \<and> title (module_app imported) = ''My FastAPI APP''"
  by (simp add: imported_def app_def app_get_def FastAPI_def)

text \<open>
  C5, as stated: the route table of \<open>app\<close> holds exactly one route. It holds five.
\<close>

theorem app_routes_not_one:
  "length (routes app) = 5 \<and>
   routes app \<noteq> [\<lparr>methods = [''GET''], path = ''/'', endpoint = Module_Def Home\<rparr>]"
  by (simp add: app_def app_get_def FastAPI_def)

text \<open>
  C5, amended: the module registers exactly one route, GET on the path \<open>/\<close> bound to
  \<open>home\<close>. It is the last entry of the route table and the only one bound to a function
  of the module; before it stand the four routes the constructor registers for the
  framework's own pages, \<open>/openapi.json\<close>, \<open>/docs\<close>, \<open>/docs/oauth2-redirect\<close> and
  \<open>/redoc\<close>. No route is registered for the path \<open>/items/{item_id}\<close> of the disabled
  endpoint.
\<close>

theorem app_routes:
  "routes app =
     routes (FastAPI ''My FastAPI APP'') @
       [\<lparr>methods = [''GET''], path = ''/'', endpoint = Module_Def Home\<rparr>] \<and>
   filter (\<lambda>r. case endpoint r of Module_Def h \<Rightarrow> True | Framework_Def b \<Rightarrow> False) (routes app) =
     [\<lparr>methods = [''GET''], path = ''/'', endpoint = Module_Def Home\<rparr>] \<and>
   map path (routes (FastAPI ''My FastAPI APP'')) =
     [''/openapi.json'', ''/docs'', ''/docs/oauth2-redirect'', ''/redoc''] \<and>
   map path (routes app) =
     [''/openapi.json'', ''/docs'', ''/docs/oauth2-redirect'', ''/redoc'', ''/''] \<and>
   filter (\<lambda>r. path r = ''/items/{item_id}'') (routes app) = []"
  by (simp add: app_def app_get_def FastAPI_def)

section \<open>Requests\<close>

text \<open>
  C1: every GET request for the path \<open>/\<close> is answered with status 200, content type
  \<open>application/json\<close> and the JSON body \<open>{"message": "Hello world"}\<close>, which is the
  value \<open>home\<close> returns.
\<close>

theorem get_root_ok:
  assumes "req_method rq = ''GET''" and "req_path rq = ''/''"
  shows "fst (dispatch app rq s) =
           Inr (Response 200 ''application/json'' (PyDict [(''message'', PyStr ''Hello world'')])) \<and>
         fst (home s) = Inr (PyDict [(''message'', PyStr ''Hello world'')])"
  using assms by (simp add: dispatch_get_root home_def)

theorem get_root_ok_witness:
  "fst (dispatch app \<lparr>req_method = ''GET'', req_path = ''/'', req_headers = [], req_body = ''''\<rparr> imported) =
     Inr (Response 200 ''application/json'' (PyDict [(''message'', PyStr ''Hello world'')])) \<and>
   fst (home imported) = Inr (PyDict [(''message'', PyStr ''Hello world'')])"
  using get_root_ok [of "\<lparr>req_method = ''GET'', req_path = ''/'', req_headers = [], req_body = ''''\<rparr>" imported]
  by simp

text \<open>
  C6: every GET request for a path \<open>/items/...\<close>, such as \<open>/items/1\<close>, is answered with
  status 404: no route is registered for it. Nothing of the state changes.
\<close>

theorem get_items_not_found:
  assumes "req_method rq = ''GET''" and "req_path rq = ''/items/'' @ item_id"
  shows "dispatch app rq s = (Inr (Default_Error 404), s) \<and> status (Default_Error 404) = 404"
  using assms by (simp add: dispatch_def routes_app)

theorem get_items_not_found_witness:
  "dispatch app \<lparr>req_method = ''GET'', req_path = ''/items/1'', req_headers = [], req_body = ''''\<rparr> imported =
     (Inr (Default_Error 404), imported)"
  using get_items_not_found
    [of "\<lparr>req_method = ''GET'', req_path = ''/items/1'', req_headers = [], req_body = ''''\<rparr>" "''1''" imported]
  by simp

text \<open>
  C7: every POST request for the path \<open>/\<close> is answered with status 405: the path is
  registered, for GET only. Nothing of the state changes.
\<close>

theorem post_root_not_allowed:
  assumes "req_method rq = ''POST''" and "req_path rq = ''/''"
  shows "dispatch app rq s = (Inr (Default_Error 405), s) \<and> status (Default_Error 405) = 405"
  using assms by (simp add: dispatch_def routes_app)

theorem post_root_not_allowed_witness:
  "dispatch app \<lparr>req_method = ''POST'', req_path = ''/'', req_headers = [], req_body = ''''\<rparr> imported =
     (Inr (Default_Error 405), imported)"
  using post_root_not_allowed
    [of "\<lparr>req_method = ''POST'', req_path = ''/'', req_headers = [], req_body = ''''\<rparr>" imported]
  by simp

end
